theory Spec2Isabelle
  imports Main
begin

section \<open>Token Fast-Check (AuthService.parseTokenLocally)\<close>

text \<open>
  The claims of a bearer token as \<^verbatim>\<open>jwt.decode\<close> hands them over (interface
  \<^verbatim>\<open>JWTPayload\<close>): the subject id and the expiry, each of which may be missing.
  Times are whole seconds since the epoch, as \<^verbatim>\<open>Math.floor(Date.now() / 1000)\<close>
  and the \<^verbatim>\<open>exp\<close> claim are.
\<close>

record jwt_payload =
  payload_id :: "int option"
  payload_exp :: "int option"

text \<open>
  \<^verbatim>\<open>jwt.decode\<close> belongs to the jsonwebtoken library, not to this repository, so
  it is a parameter of the model. It may raise, return \<^verbatim>\<open>null\<close> (a malformed
  token) or return the claims.
\<close>

datatype decode_result = DecodeThrows | DecodeNull | Decoded jwt_payload

type_synonym jwt_decode = "string \<Rightarrow> decode_result"

text \<open>
  JavaScript tests \<^verbatim>\<open>!decoded.id\<close> and \<^verbatim>\<open>if (decoded.exp)\<close> by truthiness:
  a missing number and the number 0 are both falsy. \<open>now\<close> is
  \<^verbatim>\<open>Math.floor(Date.now() / 1000)\<close>. The \<^verbatim>\<open>catch\<close> turns an exception of the
  decoder into \<^verbatim>\<open>null\<close>.
\<close>

definition parseTokenLocally :: "jwt_decode \<Rightarrow> int \<Rightarrow> string \<Rightarrow> int option" where
  "parseTokenLocally decode now token =
     (case decode token of
        DecodeThrows \<Rightarrow> None
      | DecodeNull \<Rightarrow> None
      | Decoded decoded \<Rightarrow>
          (case payload_id decoded of
             None \<Rightarrow> None
           | Some uid \<Rightarrow>
               if uid = 0 then None
               else
                 (case payload_exp decoded of
                    None \<Rightarrow> Some uid
                  | Some e \<Rightarrow> if e \<noteq> 0 \<and> e < now then None else Some uid)))"

section \<open>Session Cache (the Redis keys the relay uses)\<close>

text \<open>
  Every key is written with \<^verbatim>\<open>SETEX\<close>, so an entry is a value with the instant at
  which it expires. The namespaces \<^verbatim>\<open>token:{token}:user\<close> and
  \<^verbatim>\<open>user:{id}:online\<close> never collide and are kept as two maps; the set
  \<^verbatim>\<open>online:users\<close> is a list without duplicates. The token cache holds the decimal
  rendering of a user id, which \<^verbatim>\<open>parseInt(_, 10)\<close> reads back unchanged, so the
  model stores the number.
\<close>

record redis =
  token_user :: "string \<rightharpoonup> (int \<times> int)"
  user_online :: "int \<rightharpoonup> (string \<times> int)"
  online_users :: "int list"

definition redis_empty :: redis where
  "redis_empty = \<lparr>token_user = Map.empty, user_online = Map.empty, online_users = []\<rparr>"

definition live_at :: "int \<Rightarrow> ('v \<times> int) option \<Rightarrow> 'v option" where
  "live_at now e = (case e of None \<Rightarrow> None | Some (v, expires) \<Rightarrow> if now < expires then Some v else None)"

definition redis_get_token :: "redis \<Rightarrow> int \<Rightarrow> string \<Rightarrow> int option" where
  "redis_get_token r now token = live_at now (token_user r token)"

definition redis_setex_token :: "redis \<Rightarrow> int \<Rightarrow> string \<Rightarrow> int \<Rightarrow> int \<Rightarrow> redis" where
  "redis_setex_token r now token ttl uid = r\<lparr>token_user := (token_user r)(token \<mapsto> (uid, now + ttl))\<rparr>"

definition setUserOnline :: "redis \<Rightarrow> int \<Rightarrow> int \<Rightarrow> string \<Rightarrow> redis" where
  "setUserOnline r now userId socketId =
     r\<lparr>user_online := (user_online r)(userId \<mapsto> (socketId, now + 300)),
       online_users := (if userId \<in> set (online_users r) then online_users r
                        else online_users r @ [userId])\<rparr>"

definition removeUserOnline :: "redis \<Rightarrow> int \<Rightarrow> redis" where
  "removeUserOnline r userId =
     r\<lparr>user_online := (user_online r)(userId := None),
       online_users := removeAll userId (online_users r)\<rparr>"

definition isUserOnline :: "redis \<Rightarrow> int \<Rightarrow> int \<Rightarrow> bool" where
  "isUserOnline r now userId = (live_at now (user_online r userId) \<noteq> None)"

section \<open>Auth Coordinator (AuthService.verifyToken, verifyTokenFast)\<close>

record user_info =
  ui_id :: int
  email :: string
  username :: string

definition minimal_user :: "int \<Rightarrow> user_info" where
  "minimal_user uid = \<lparr>ui_id = uid, email = [], username = []\<rparr>"

text \<open>
  What \<^verbatim>\<open>axios.get\<close> does with the request to the identity service: it resolves
  with the response body (absent, or a user object), rejects with an
  \<^verbatim>\<open>AxiosError\<close> carrying \<^verbatim>\<open>error.code\<close> and
  \<^verbatim>\<open>error.response?.status\<close>, or rejects with something else.
\<close>

datatype remote_outcome =
    Responded "user_info option"
  | AxiosError "string option" "nat option"
  | OtherError

type_synonym identity_service = "string \<Rightarrow> remote_outcome"

datatype auth_error = UnauthorizedException

definition network_codes :: "string list" where
  "network_codes = [''ECONNREFUSED'', ''ETIMEDOUT'', ''ENOTFOUND'', ''ECONNABORTED'']"

definition network_class :: "string option \<Rightarrow> bool" where
  "network_class code = (case code of None \<Rightarrow> False | Some c \<Rightarrow> c \<in> set network_codes)"

definition tokenCacheTTL :: int where
  "tokenCacheTTL = 600"

text \<open>
  The result of a full verification: what the promise settles to (\<open>Inl\<close> a raised
  exception, \<open>Inr None\<close> the value \<^verbatim>\<open>null\<close>), the cache afterwards, and the
  number of requests sent to the identity service.
\<close>

record verified =
  vt_result :: "auth_error + user_info option"
  vt_redis :: redis
  vt_requests :: nat

definition local_fallback :: "int \<Rightarrow> auth_error + user_info option" where
  "local_fallback localUserId =
     (if localUserId \<noteq> 0 then Inr (Some (minimal_user localUserId)) else Inr None)"

definition verify_failed :: "int \<Rightarrow> string option \<Rightarrow> nat option \<Rightarrow> auth_error + user_info option" where
  "verify_failed localUserId errorCode status =
     (if network_class errorCode then
        (if localUserId \<noteq> 0 then Inr (Some (minimal_user localUserId))
         else Inl UnauthorizedException)
      else if status = Some 401 then Inr None
      else if status = Some 403 then Inr None
      else if status = Some 500 \<or> status = Some 502 \<or> status = Some 503 \<or> status = Some 504
        then local_fallback localUserId
      else local_fallback localUserId)"

definition verifyToken ::
  "jwt_decode \<Rightarrow> identity_service \<Rightarrow> int \<Rightarrow> redis \<Rightarrow> string \<Rightarrow> bool \<Rightarrow> verified" where
  "verifyToken decode api now r token useCache =
     (if token = [] then \<lparr>vt_result = Inr None, vt_redis = r, vt_requests = 0\<rparr>
      else
        case (if useCache then redis_get_token r now token else None) of
          Some cachedUserId \<Rightarrow>
            \<lparr>vt_result = Inr (Some (minimal_user cachedUserId)), vt_redis = r, vt_requests = 0\<rparr>
        | None \<Rightarrow>
            (case parseTokenLocally decode now token of
               None \<Rightarrow> \<lparr>vt_result = Inr None, vt_redis = r, vt_requests = 0\<rparr>
             | Some localUserId \<Rightarrow>
                 if localUserId = 0 then \<lparr>vt_result = Inr None, vt_redis = r, vt_requests = 0\<rparr>
                 else
                   (case api token of
                      Responded None \<Rightarrow> \<lparr>vt_result = Inr None, vt_redis = r, vt_requests = 1\<rparr>
                    | Responded (Some userInfo) \<Rightarrow>
                        if ui_id userInfo = 0
                        then \<lparr>vt_result = Inr None, vt_redis = r, vt_requests = 1\<rparr>
                        else \<lparr>vt_result = Inr (Some userInfo),
                              vt_redis = (if useCache
                                          then redis_setex_token r now token tokenCacheTTL (ui_id userInfo)
                                          else r),
                              vt_requests = 1\<rparr>
                    | AxiosError errorCode status \<Rightarrow>
                        \<lparr>vt_result = verify_failed localUserId errorCode status,
                         vt_redis = r, vt_requests = 1\<rparr>
                    | OtherError \<Rightarrow>
                        \<lparr>vt_result = local_fallback localUserId, vt_redis = r, vt_requests = 1\<rparr>)))"

definition verifyTokenFast :: "jwt_decode \<Rightarrow> int \<Rightarrow> redis \<Rightarrow> string \<Rightarrow> int option" where
  "verifyTokenFast decode now r token =
     (if token = [] then None
      else case redis_get_token r now token of
             Some cachedUserId \<Rightarrow> Some cachedUserId
           | None \<Rightarrow> parseTokenLocally decode now token)"

definition isTokenExpired :: "jwt_decode \<Rightarrow> int \<Rightarrow> redis \<Rightarrow> string \<Rightarrow> bool" where
  "isTokenExpired decode now r token = (verifyTokenFast decode now r token = None)"

text \<open>A token and an identity service to run the definitions on.\<close>

definition demo_decode :: jwt_decode where
  "demo_decode token =
     (if token = ''alice'' then Decoded \<lparr>payload_id = Some 1, payload_exp = Some 1100\<rparr>
      else if token = ''bob'' then Decoded \<lparr>payload_id = Some 2, payload_exp = Some 5000\<rparr>
      else if token = ''zero'' then Decoded \<lparr>payload_id = Some 0, payload_exp = Some 5000\<rparr>
      else if token = ''epoch'' then Decoded \<lparr>payload_id = Some 3, payload_exp = Some 0\<rparr>
      else if token = ''mallory'' then Decoded \<lparr>payload_id = Some 4, payload_exp = Some 5000\<rparr>
      else if token = ''bad'' then DecodeThrows
      else DecodeNull)"

definition demo_api :: identity_service where
  "demo_api token =
     (if token = ''alice'' then Responded (Some \<lparr>ui_id = 1, email = ''a@x'', username = ''alice''\<rparr>)
      else if token = ''bob'' then Responded (Some \<lparr>ui_id = 2, email = ''b@x'', username = ''bob''\<rparr>)
      else AxiosError (Some ''ERR_BAD_REQUEST'') (Some 401))"


section \<open>Message Store Facade (MessagesService)\<close>

text \<open>
  The tables \<^verbatim>\<open>chat.chats\<close>, \<^verbatim>\<open>chat.messages\<close> and
  \<^verbatim>\<open>chat.read_messages\<close> as lists of rows, in insertion order. A primary key made
  by \<^verbatim>\<open>gen_random_uuid()\<close> is a fresh number drawn from a counter of the store.
\<close>

type_synonym uuid = nat

text \<open>
  A JavaScript string is its sequence of UTF-16 code units; the text of a message is
  kept that way, since \<^verbatim>\<open>String.prototype.trim\<close> is defined on code units.
\<close>

type_synonym js_string = "nat list"

text \<open>The columns \<^verbatim>\<open>buyer_id\<close>, \<^verbatim>\<open>seller_id\<close>, \<^verbatim>\<open>sender_id\<close> and
  \<^verbatim>\<open>product_id\<close> are PostgreSQL \<^verbatim>\<open>INTEGER\<close>s: a value outside the 32-bit
  range makes the statement raise.\<close>

definition int4 :: "int \<Rightarrow> bool" where
  "int4 n = (- 2147483648 \<le> n \<and> n \<le> 2147483647)"

record chat =
  chat_id :: uuid
  buyer_id :: int
  seller_id :: int
  chat_created_at :: int

record message =
  msg_id :: uuid
  msg_chat_id :: uuid
  sender_id :: int
  content :: js_string
  product_id :: "int option"
  msg_created_at :: int

record read_message =
  rm_message_id :: uuid
  rm_user_id :: int
  read_at :: int

record store =
  chats :: "chat list"
  messages :: "message list"
  read_messages :: "read_message list"
  next_uuid :: nat

definition store_empty :: store where
  "store_empty = \<lparr>chats = [], messages = [], read_messages = [], next_uuid = 0\<rparr>"

definition getChatById :: "store \<Rightarrow> uuid \<Rightarrow> chat option" where
  "getChatById st chatId = find (\<lambda>c. chat_id c = chatId) (chats st)"

definition getChatByUsers :: "store \<Rightarrow> int \<Rightarrow> int \<Rightarrow> chat option" where
  "getChatByUsers st buyerId sellerId =
     find (\<lambda>c. (buyer_id c = buyerId \<and> seller_id c = sellerId)
              \<or> (buyer_id c = sellerId \<and> seller_id c = buyerId)) (chats st)"

text \<open>
  \<^verbatim>\<open>createChat(buyerId, sellerId)\<close> as the gateway calls it, without a product id, so
  the product-context branch is not entered. The statement is
  \<^verbatim>\<open>INSERT ... ON CONFLICT (buyer_id, seller_id) DO UPDATE SET buyer_id = EXCLUDED.buyer_id
  RETURNING *\<close> under the constraint \<^verbatim>\<open>UNIQUE(buyer_id, seller_id)\<close>: a row with the
  same buyer and the same seller is returned as it is, otherwise a row is inserted.
  The statement raises (\<open>None\<close>) for an id outside the \<^verbatim>\<open>INTEGER\<close> range.
\<close>

definition createChat :: "store \<Rightarrow> int \<Rightarrow> int \<Rightarrow> int \<Rightarrow> (chat \<times> store) option" where
  "createChat st now buyerId sellerId =
     (if \<not> (int4 buyerId \<and> int4 sellerId) then None
      else
        (case find (\<lambda>c. buyer_id c = buyerId \<and> seller_id c = sellerId) (chats st) of
           Some existing \<Rightarrow> Some (existing, st)
         | None \<Rightarrow>
             (let row = \<lparr>chat_id = next_uuid st, buyer_id = buyerId, seller_id = sellerId,
                         chat_created_at = now\<rparr>
              in Some (row, st\<lparr>chats := chats st @ [row], next_uuid := Suc (next_uuid st)\<rparr>))))"

text \<open>
  \<^verbatim>\<open>createMessage\<close>: the insert raises (\<open>None\<close>) when the text is undefined
  (\<^verbatim>\<open>content TEXT NOT NULL\<close>) or holds the code unit 0 (which a PostgreSQL
  \<^verbatim>\<open>TEXT\<close> cannot store), when the sender id or the product id is outside the
  \<^verbatim>\<open>INTEGER\<close> range, or when the chat does not exist (the foreign key).
  \<^verbatim>\<open>productId || null\<close> stores a product id of 0 as null.
\<close>

definition stored_product :: "int option \<Rightarrow> int option" where
  "stored_product productId = (if productId = Some 0 then None else productId)"

definition createMessage ::
  "store \<Rightarrow> int \<Rightarrow> uuid \<Rightarrow> int \<Rightarrow> js_string option \<Rightarrow> int option \<Rightarrow> (message \<times> store) option" where
  "createMessage st now chatId senderId text productId =
     (case text of
        None \<Rightarrow> None
      | Some t \<Rightarrow>
          if 0 \<in> set t then None
          else if \<not> int4 senderId then None
          else if (case stored_product productId of None \<Rightarrow> False | Some p \<Rightarrow> \<not> int4 p) then None
          else
            (case getChatById st chatId of
               None \<Rightarrow> None
             | Some c \<Rightarrow>
                 (let row = \<lparr>msg_id = next_uuid st, msg_chat_id = chatId, sender_id = senderId,
                             content = t, product_id = stored_product productId,
                             msg_created_at = now\<rparr>
                  in Some (row, st\<lparr>messages := messages st @ [row],
                                    next_uuid := Suc (next_uuid st)\<rparr>))))"

text \<open>The chats of a user; the rooms joined do not depend on the order of the rows.\<close>

definition getUserChats :: "store \<Rightarrow> int \<Rightarrow> chat list" where
  "getUserChats st userId = filter (\<lambda>c. buyer_id c = userId \<or> seller_id c = userId) (chats st)"

definition is_read :: "store \<Rightarrow> uuid \<Rightarrow> int \<Rightarrow> bool" where
  "is_read st messageId userId =
     (\<exists>r \<in> set (read_messages st). rm_message_id r = messageId \<and> rm_user_id r = userId)"

text \<open>One row into \<^verbatim>\<open>chat.read_messages\<close>, \<^verbatim>\<open>ON CONFLICT (message_id, user_id) DO NOTHING\<close>.\<close>

definition insert_read :: "int \<Rightarrow> int \<Rightarrow> uuid \<Rightarrow> store \<Rightarrow> store" where
  "insert_read now userId messageId st =
     (if is_read st messageId userId then st
      else st\<lparr>read_messages := read_messages st @
                 [\<lparr>rm_message_id = messageId, rm_user_id = userId, read_at = now\<rparr>]\<rparr>)"

text \<open>\<^verbatim>\<open>markMessageAsRead\<close> fails on the foreign key when the message does not exist.\<close>

definition markMessageAsRead :: "store \<Rightarrow> int \<Rightarrow> uuid \<Rightarrow> int \<Rightarrow> store option" where
  "markMessageAsRead st now messageId userId =
     (if (\<exists>m \<in> set (messages st). msg_id m = messageId)
      then Some (insert_read now userId messageId st) else None)"

definition markChatMessagesAsRead :: "store \<Rightarrow> int \<Rightarrow> uuid \<Rightarrow> int \<Rightarrow> store" where
  "markChatMessagesAsRead st now chatId userId =
     fold (insert_read now userId)
       (map msg_id (filter (\<lambda>m. msg_chat_id m = chatId \<and> sender_id m \<noteq> userId) (messages st)))
       st"

definition getUnreadCountForChat :: "store \<Rightarrow> uuid \<Rightarrow> int \<Rightarrow> nat" where
  "getUnreadCountForChat st chatId userId =
     length (filter (\<lambda>m. msg_chat_id m = chatId \<and> sender_id m \<noteq> userId
                          \<and> \<not> is_read st (msg_id m) userId) (messages st))"


section \<open>Chat Relay (ChatGateway)\<close>

text \<open>
  Rooms are named \<^verbatim>\<open>chat:{chatId}\<close> and \<^verbatim>\<open>user:{userId}\<close>; socket.io also
  puts every socket into the room named by its own id, which is what
  \<^verbatim>\<open>server.to(socketId)\<close> addresses.
\<close>

datatype room = ChatRoom uuid | UserRoom int | SocketRoom string

text \<open>An \<^verbatim>\<open>AuthenticatedSocket\<close>: the two fields the gateway adds, and the rooms joined.\<close>

record socket =
  sock_userId :: "int option"
  sock_token :: "string option"
  sock_rooms :: "room list"

datatype event =
    AuthError string string
  | AuthTokenExpired
  | UserOnlineEv int
  | UserOfflineEv int
  | MessageNew message
  | UnreadUpdated uuid nat
  | MessageRead uuid int
  | ChatCreated chat

record offline_email =
  em_recipientId :: int
  em_senderId :: int
  em_chatId :: uuid
  em_messageText :: js_string
  em_productId :: "int option"

datatype reply =
    ErrorReply string "string option"
  | SentReply message
  | ChatReply chat
  | RefreshedReply int
  | UnreadReply nat

text \<open>
  The state the gateway works on: the registry \<^verbatim>\<open>userSockets\<close> (a JavaScript
  \<^verbatim>\<open>Map\<close> of \<^verbatim>\<open>Set\<close>s, a set being a list without duplicates in insertion
  order), the sockets with the ids of the connected ones, the cache, the store, and
  two logs: every emitted event with the sockets it was delivered to, and every call
  of \<^verbatim>\<open>sendOfflineChatEmail\<close>.
\<close>

record gateway =
  userSockets :: "int \<rightharpoonup> string list"
  sockets :: "string \<Rightarrow> socket"
  conns :: "string list"
  cache :: redis
  db :: store
  emitted :: "(string list \<times> event) list"
  emails :: "offline_email list"

definition fresh_socket :: "string \<Rightarrow> socket" where
  "fresh_socket cid = \<lparr>sock_userId = None, sock_token = None, sock_rooms = [SocketRoom cid]\<rparr>"

definition gateway_empty :: gateway where
  "gateway_empty = \<lparr>userSockets = Map.empty, sockets = fresh_socket, conns = [],
     cache = redis_empty, db = store_empty, emitted = [], emails = []\<rparr>"

definition set_add :: "'a \<Rightarrow> 'a list \<Rightarrow> 'a list" where
  "set_add x xs = (if x \<in> set xs then xs else xs @ [x])"

definition room_members :: "gateway \<Rightarrow> room \<Rightarrow> string list" where
  "room_members g r = filter (\<lambda>sid. r \<in> set (sock_rooms (sockets g sid))) (conns g)"

definition emit_to :: "string list \<Rightarrow> event \<Rightarrow> gateway \<Rightarrow> gateway" where
  "emit_to recipients ev g = g\<lparr>emitted := emitted g @ [(recipients, ev)]\<rparr>"

definition client_emit :: "string \<Rightarrow> event \<Rightarrow> gateway \<Rightarrow> gateway" where
  "client_emit cid ev g = emit_to [cid] ev g"

definition server_emit :: "event \<Rightarrow> gateway \<Rightarrow> gateway" where
  "server_emit ev g = emit_to (conns g) ev g"

definition server_to :: "room \<Rightarrow> event \<Rightarrow> gateway \<Rightarrow> gateway" where
  "server_to r ev g = emit_to (room_members g r) ev g"

definition join :: "string \<Rightarrow> room \<Rightarrow> gateway \<Rightarrow> gateway" where
  "join sid r g =
     g\<lparr>sockets := (sockets g)(sid := (sockets g sid)\<lparr>sock_rooms := set_add r (sock_rooms (sockets g sid))\<rparr>)\<rparr>"

text \<open>What socket.io does around the hooks: a new socket enters the namespace and its
  own room; a closed one leaves the namespace and all its rooms.\<close>

definition socket_opened :: "string \<Rightarrow> gateway \<Rightarrow> gateway" where
  "socket_opened cid g = g\<lparr>sockets := (sockets g)(cid := fresh_socket cid), conns := set_add cid (conns g)\<rparr>"

definition socket_closed :: "string \<Rightarrow> gateway \<Rightarrow> gateway" where
  "socket_closed cid g =
     g\<lparr>sockets := (sockets g)(cid := (sockets g cid)\<lparr>sock_rooms := []\<rparr>),
       conns := removeAll cid (conns g)\<rparr>"

text \<open>The refusals of \<^verbatim>\<open>handleConnection\<close>: \<^verbatim>\<open>client.emit('auth:error', ...)\<close>,
  then \<^verbatim>\<open>client.disconnect()\<close>; the socket has no user id yet, so the disconnect
  hook returns at once.\<close>

definition refuse :: "string \<Rightarrow> string \<Rightarrow> string \<Rightarrow> gateway \<Rightarrow> gateway" where
  "refuse cid err code g = socket_closed cid (client_emit cid (AuthError err code) g)"

definition handleConnection ::
  "jwt_decode \<Rightarrow> identity_service \<Rightarrow> int \<Rightarrow> gateway \<Rightarrow> string \<Rightarrow> string option \<Rightarrow> gateway" where
  "handleConnection decode api now g cid handshakeToken =
     (let g0 = socket_opened cid g in
      case handshakeToken of
        None \<Rightarrow> refuse cid ''Authentication token required'' ''TOKEN_REQUIRED'' g0
      | Some token \<Rightarrow>
          if token = [] then refuse cid ''Authentication token required'' ''TOKEN_REQUIRED'' g0
          else
            (let v = verifyToken decode api now (cache g0) token True;
                 g1 = g0\<lparr>cache := vt_redis v\<rparr>
             in case vt_result v of
                  Inl e \<Rightarrow> refuse cid ''Authentication service error'' ''AUTH_SERVICE_ERROR'' g1
                | Inr None \<Rightarrow> refuse cid ''Invalid or expired token'' ''TOKEN_INVALID'' g1
                | Inr (Some userInfo) \<Rightarrow>
                    (let uid = ui_id userInfo;
                         g2 = g1\<lparr>sockets := (sockets g1)(cid := (sockets g1 cid)
                                   \<lparr>sock_userId := Some uid, sock_token := Some token\<rparr>)\<rparr>;
                         g3 = g2\<lparr>userSockets := (userSockets g2)(uid \<mapsto>
                                   set_add cid (case userSockets g2 uid of None \<Rightarrow> [] | Some s \<Rightarrow> s))\<rparr>;
                         g4 = g3\<lparr>cache := setUserOnline (cache g3) now uid cid\<rparr>;
                         g5 = server_emit (UserOnlineEv uid) g4
                     in fold (\<lambda>c. join cid (ChatRoom (chat_id c))) (getUserChats (db g5) uid) g5)))"

definition handleDisconnect :: "gateway \<Rightarrow> string \<Rightarrow> gateway" where
  "handleDisconnect g cid =
     (let g0 = socket_closed cid g in
      case sock_userId (sockets g cid) of
        None \<Rightarrow> g0
      | Some userId \<Rightarrow>
          if userId = 0 then g0
          else
            (case userSockets g0 userId of
               None \<Rightarrow> g0
             | Some userSocketSet \<Rightarrow>
                 (let remaining = removeAll cid userSocketSet in
                  if length remaining = 0
                  then server_emit (UserOfflineEv userId)
                         (g0\<lparr>userSockets := (userSockets g0)(userId := None),
                             cache := removeUserOnline (cache g0) userId\<rparr>)
                  else g0\<lparr>userSockets := (userSockets g0)(userId \<mapsto> remaining)\<rparr>)))"

text \<open>
  Every action handler starts with the same two checks: the session holds a truthy
  user id and a truthy token (else \<^verbatim>\<open>auth:error\<close> and \<^verbatim>\<open>Unauthorized\<close>), and
  \<^verbatim>\<open>verifyTokenFast\<close> on the session's token gives the session's user id (else
  \<^verbatim>\<open>auth:token-expired\<close>). \<open>Inr\<close> carries the user id of a session that passed.
\<close>

definition session_user :: "socket \<Rightarrow> (int \<times> string) option" where
  "session_user client =
     (case sock_userId client of
        None \<Rightarrow> None
      | Some uid \<Rightarrow>
          if uid = 0 then None
          else (case sock_token client of
                  None \<Rightarrow> None
                | Some tok \<Rightarrow> if tok = [] then None else Some (uid, tok)))"

definition token_expired :: "gateway \<Rightarrow> string \<Rightarrow> reply \<times> gateway" where
  "token_expired g cid =
     (ErrorReply ''Token expired'' (Some ''TOKEN_EXPIRED''), client_emit cid AuthTokenExpired g)"

definition authorize :: "jwt_decode \<Rightarrow> int \<Rightarrow> gateway \<Rightarrow> string \<Rightarrow> (reply \<times> gateway) + int" where
  "authorize decode now g cid =
     (case session_user (sockets g cid) of
        None \<Rightarrow>
          Inl (ErrorReply ''Unauthorized'' None,
               client_emit cid (AuthError ''Authentication required'' ''TOKEN_REQUIRED'') g)
      | Some (uid, tok) \<Rightarrow>
          (case verifyTokenFast decode now (cache g) tok of
             None \<Rightarrow> Inl (token_expired g cid)
           | Some userId \<Rightarrow>
               if userId = 0 \<or> userId \<noteq> uid then Inl (token_expired g cid) else Inr uid))"

text \<open>
  \<^verbatim>\<open>String.prototype.trim\<close> strips the ECMAScript white space and line
  terminators from both ends: TAB, LF, VT, FF, CR, SPACE, U+00A0, U+1680,
  U+2000 to U+200A, U+2028, U+2029, U+202F, U+205F, U+3000 and U+FEFF, each of which
  is one code unit.
\<close>

definition js_space :: "nat \<Rightarrow> bool" where
  "js_space c =
     (c \<in> set [0x0009, 0x000A, 0x000B, 0x000C, 0x000D, 0x0020, 0x00A0, 0x1680,
                0x2028, 0x2029, 0x202F, 0x205F, 0x3000, 0xFEFF]
      \<or> (0x2000 \<le> c \<and> c \<le> 0x200A))"

definition trim :: "js_string \<Rightarrow> js_string" where
  "trim s = rev (dropWhile js_space (rev (dropWhile js_space s)))"

text \<open>A message text is blank when nothing is left of it after trimming.\<close>

definition blank :: "js_string \<Rightarrow> bool" where
  "blank t = (trim t = [])"

definition other_participant :: "chat \<Rightarrow> int \<Rightarrow> int" where
  "other_participant c uid = (if buyer_id c = uid then seller_id c else buyer_id c)"

definition handleMessage ::
  "jwt_decode \<Rightarrow> int \<Rightarrow> gateway \<Rightarrow> string \<Rightarrow> uuid \<Rightarrow> js_string option \<Rightarrow> int option \<Rightarrow> reply \<times> gateway" where
  "handleMessage decode now g cid chatId text productId =
     (case authorize decode now g cid of
        Inl refused \<Rightarrow> refused
      | Inr uid \<Rightarrow>
          (case getChatById (db g) chatId of
             None \<Rightarrow> (ErrorReply ''Chat not found'' None, g)
           | Some c \<Rightarrow>
               if buyer_id c \<noteq> uid \<and> seller_id c \<noteq> uid then (ErrorReply ''Access denied'' None, g)
               else
                 (let recipientId = other_participant c uid in
                  case createMessage (db g) now chatId uid text productId of
                    None \<Rightarrow> (ErrorReply ''Failed to send message'' None, g)
                  | Some (msg, db') \<Rightarrow>
                      (let g1 = g\<lparr>db := db'\<rparr>;
                           recipientUnreadCount = getUnreadCountForChat (db g1) chatId recipientId;
                           g2 = server_to (ChatRoom chatId) (MessageNew msg) g1;
                           g3 = (case userSockets g2 recipientId of
                                   None \<Rightarrow> g2
                                 | Some recipientSockets \<Rightarrow>
                                     fold (\<lambda>socketId. server_to (SocketRoom socketId)
                                             (UnreadUpdated chatId recipientUnreadCount))
                                       recipientSockets g2);
                           isRecipientOnline = isUserOnline (cache g3) now recipientId;
                           g4 = (case text of
                                   None \<Rightarrow> g3
                                 | Some t \<Rightarrow>
                                     if \<not> isRecipientOnline \<and> t \<noteq> [] \<and> length (trim t) > 0
                                     then g3\<lparr>emails := emails g3 @
                                            [\<lparr>em_recipientId = recipientId, em_senderId = uid,
                                              em_chatId = chatId, em_messageText = t,
                                              em_productId = productId\<rparr>]\<rparr>
                                     else g3)
                       in (SentReply msg, g4)))))"

text \<open>
  \<^verbatim>\<open>chat:create\<close>. The gateway is declared with \<^verbatim>\<open>namespace: '/chat'\<close>, so
  \<^verbatim>\<open>server\<close> is that namespace, whose \<^verbatim>\<open>sockets\<close> is the map of its sockets:
  \<^verbatim>\<open>this.server.sockets.sockets\<close> is undefined, and \<^verbatim>\<open>.get\<close> on it raises a
  \<^verbatim>\<open>TypeError\<close> at the first socket id that \<^verbatim>\<open>forEach\<close> visits. That happens
  after the insert; the \<^verbatim>\<open>catch\<close> replies \<^verbatim>\<open>Failed to create chat\<close>, and
  nothing is joined or emitted. Only when neither party has a registered socket does
  the handler reach the \<^verbatim>\<open>chat:created\<close> event and the success reply.
\<close>

definition has_sockets :: "string list option \<Rightarrow> bool" where
  "has_sockets socks = (case socks of None \<Rightarrow> False | Some ids \<Rightarrow> ids \<noteq> [])"

definition handleCreateChat ::
  "jwt_decode \<Rightarrow> int \<Rightarrow> gateway \<Rightarrow> string \<Rightarrow> int \<Rightarrow> int \<Rightarrow> reply \<times> gateway" where
  "handleCreateChat decode now g cid buyerId sellerId =
     (case authorize decode now g cid of
        Inl refused \<Rightarrow> refused
      | Inr uid \<Rightarrow>
          if uid \<noteq> buyerId \<and> uid \<noteq> sellerId then (ErrorReply ''Access denied'' None, g)
          else
            (case createChat (db g) now buyerId sellerId of
               None \<Rightarrow> (ErrorReply ''Failed to create chat'' None, g)
             | Some (c, db') \<Rightarrow>
                 (let g1 = g\<lparr>db := db'\<rparr>;
                      buyerSockets = userSockets g1 buyerId;
                      sellerSockets = userSockets g1 sellerId
                  in if has_sockets buyerSockets then (ErrorReply ''Failed to create chat'' None, g1)
                     else if has_sockets sellerSockets
                       then (ErrorReply ''Failed to create chat'' None, g1)
                     else (ChatReply c, server_to (ChatRoom (chat_id c)) (ChatCreated c) g1))))"

definition handleRefreshToken ::
  "jwt_decode \<Rightarrow> identity_service \<Rightarrow> int \<Rightarrow> gateway \<Rightarrow> string \<Rightarrow> string option \<Rightarrow> reply \<times> gateway" where
  "handleRefreshToken decode api now g cid dataToken =
     (case dataToken of
        None \<Rightarrow> (ErrorReply ''Token required'' None, g)
      | Some token \<Rightarrow>
          if token = [] then (ErrorReply ''Token required'' None, g)
          else
            (let v = verifyToken decode api now (cache g) token True;
                 g1 = g\<lparr>cache := vt_redis v\<rparr>
             in case vt_result v of
                  Inl e \<Rightarrow> (ErrorReply ''Failed to refresh token'' None, g1)
                | Inr None \<Rightarrow> (ErrorReply ''Invalid token'' None, g1)
                | Inr (Some userInfo) \<Rightarrow>
                    (let g2 = g1\<lparr>sockets := (sockets g1)(cid := (sockets g1 cid)
                                   \<lparr>sock_userId := Some (ui_id userInfo), sock_token := Some token\<rparr>)\<rparr>;
                         g3 = g2\<lparr>cache := setUserOnline (cache g2) now (ui_id userInfo) cid\<rparr>
                     in (RefreshedReply (ui_id userInfo), g3))))"

text \<open>
  \<^verbatim>\<open>Promise.all\<close> over \<^verbatim>\<open>markMessageAsRead\<close>: every insert is issued; the
  promise rejects when one of them fails, and the others still take effect.
\<close>

definition mark_each :: "int \<Rightarrow> int \<Rightarrow> uuid list \<Rightarrow> store \<Rightarrow> bool \<times> store" where
  "mark_each now userId messageIds st =
     fold (\<lambda>msgId (ok, s). case markMessageAsRead s now msgId userId of
                              None \<Rightarrow> (False, s)
                            | Some s' \<Rightarrow> (ok, s'))
       messageIds (True, st)"

definition handleMarkMessagesAsRead ::
  "jwt_decode \<Rightarrow> int \<Rightarrow> gateway \<Rightarrow> string \<Rightarrow> uuid \<Rightarrow> uuid list option \<Rightarrow> reply \<times> gateway" where
  "handleMarkMessagesAsRead decode now g cid chatId messageIds =
     (case authorize decode now g cid of
        Inl refused \<Rightarrow> refused
      | Inr uid \<Rightarrow>
          (case getChatById (db g) chatId of
             None \<Rightarrow> (ErrorReply ''Access denied'' None, g)
           | Some c \<Rightarrow>
               if buyer_id c \<noteq> uid \<and> seller_id c \<noteq> uid then (ErrorReply ''Access denied'' None, g)
               else
                 (case (case messageIds of
                          None \<Rightarrow> (True, markChatMessagesAsRead (db g) now chatId uid)
                        | Some ids \<Rightarrow>
                            if length ids > 0 then mark_each now uid ids (db g)
                            else (True, markChatMessagesAsRead (db g) now chatId uid)) of
                    (ok, db') \<Rightarrow>
                      if \<not> ok then (ErrorReply ''Failed to mark messages as read'' None, g\<lparr>db := db'\<rparr>)
                      else
                        (let g1 = g\<lparr>db := db'\<rparr>;
                             unreadCount = getUnreadCountForChat (db g1) chatId uid;
                             g2 = client_emit cid (UnreadUpdated chatId unreadCount) g1;
                             recipientId = other_participant c uid;
                             g3 = server_to (UserRoom recipientId) (MessageRead chatId uid) g2
                         in (UnreadReply unreadCount, g3)))))"

text \<open>The sockets an event was delivered to, over the whole log.\<close>

definition delivered :: "gateway \<Rightarrow> event \<Rightarrow> string list" where
  "delivered g ev = concat (map fst (filter (\<lambda>e. snd e = ev) (emitted g)))"


text \<open>
  The states of the relay: it starts with no socket, over any store and cache, and
  moves by the hooks and handlers above; the store also changes under it, through the
  HTTP controllers. The handlers left out here (typing, \<^verbatim>\<open>chat:join\<close>,
  \<^verbatim>\<open>users:online\<close>) join no room other than a \<^verbatim>\<open>chat:{chatId}\<close> one.
\<close>

inductive reachable :: "jwt_decode \<Rightarrow> identity_service \<Rightarrow> gateway \<Rightarrow> bool"
  for decode :: jwt_decode and api :: identity_service where
  started: "reachable decode api (gateway_empty\<lparr>cache := r, db := st\<rparr>)"
| connected: "reachable decode api g \<Longrightarrow>
    reachable decode api (handleConnection decode api now g cid handshakeToken)"
| disconnected: "reachable decode api g \<Longrightarrow> reachable decode api (handleDisconnect g cid)"
| sent: "reachable decode api g \<Longrightarrow>
    reachable decode api (snd (handleMessage decode now g cid chatId text productId))"
| created: "reachable decode api g \<Longrightarrow>
    reachable decode api (snd (handleCreateChat decode now g cid buyerId sellerId))"
| refreshed: "reachable decode api g \<Longrightarrow>
    reachable decode api (snd (handleRefreshToken decode api now g cid dataToken))"
| marked: "reachable decode api g \<Longrightarrow>
    reachable decode api (snd (handleMarkMessagesAsRead decode now g cid chatId messageIds))"
| stored: "reachable decode api g \<Longrightarrow> reachable decode api (g\<lparr>db := st\<rparr>)"

definition user_room :: "room \<Rightarrow> bool" where
  "user_room r = (case r of UserRoom u \<Rightarrow> True | ChatRoom c \<Rightarrow> False | SocketRoom s \<Rightarrow> False)"

definition in_user_room :: "gateway \<Rightarrow> string \<Rightarrow> bool" where
  "in_user_room g sid = (\<exists>r \<in> set (sock_rooms (sockets g sid)). user_room r)"

text \<open>States to run the handlers on: a store with one chat between users 1 and 2, and
  the sessions that connect to it.\<close>

definition demo_store :: store where
  "demo_store =
     \<lparr>chats = [\<lparr>chat_id = 0, buyer_id = 1, seller_id = 2, chat_created_at = 900\<rparr>],
      messages = [], read_messages = [], next_uuid = 1\<rparr>"

definition demo_start :: gateway where
  "demo_start = gateway_empty\<lparr>db := demo_store\<rparr>"

definition demo_one :: gateway where
  "demo_one = handleConnection demo_decode demo_api 1000 demo_start ''s1'' (Some ''alice'')"

definition demo_two :: gateway where
  "demo_two = handleConnection demo_decode demo_api 1010 demo_one ''s2'' (Some ''alice'')"

definition demo_both :: gateway where
  "demo_both = handleConnection demo_decode demo_api 1010 demo_one ''sB'' (Some ''bob'')"

definition demo_sent :: gateway where
  "demo_sent = snd (handleMessage demo_decode 1020 demo_both ''s1'' 0 (Some [0x68, 0x69]) None)"

definition demo_refreshed :: gateway where
  "demo_refreshed = snd (handleRefreshToken demo_decode demo_api 1020 demo_one ''s1'' (Some ''bob''))"

definition demo_two_refreshed :: gateway where
  "demo_two_refreshed =
     handleDisconnect
       (handleDisconnect
          (snd (handleRefreshToken demo_decode demo_api 1020 demo_two ''s1'' (Some ''bob'')))
          ''s1'')
       ''s2''"

section \<open>Properties of the Auth Coordinator\<close>

lemmas demo_defs = demo_decode_def demo_api_def redis_empty_def

lemmas redis_defs = redis_get_token_def redis_setex_token_def live_at_def tokenCacheTTL_def
  setUserOnline_def removeUserOnline_def isUserOnline_def

lemmas auth_defs = parseTokenLocally_def verifyTokenFast_def verifyToken_def verify_failed_def
  local_fallback_def network_class_def network_codes_def minimal_user_def


lemma verifyTokenFast_cache_hit:
  "token \<noteq> [] \<Longrightarrow> redis_get_token r now token = Some uid \<Longrightarrow>
   verifyTokenFast decode now r token = Some uid"
  by (simp add: verifyTokenFast_def)

text \<open>
  Claim C1. A token whose own \<^verbatim>\<open>exp\<close> claim lies in the past should make fast verify
  return absent and should not be given an identity by full verify on the cache path.
  The code does otherwise: the token \<open>''alice''\<close> (subject 1, \<^verbatim>\<open>exp\<close> = 1100) is
  verified at time 1000, which caches it for 600 seconds; at time 1200 the token has
  expired by its own claim (the local check alone returns absent), the cache entry is
  still live, and both fast verify and full verify answer with user 1, while
  \<^verbatim>\<open>isTokenExpired\<close> answers false.
\<close>

theorem cached_token_outlives_expiry:
  "parseTokenLocally demo_decode 1200 ''alice'' = None \<and>
   verifyTokenFast demo_decode 1200
     (vt_redis (verifyToken demo_decode demo_api 1000 redis_empty ''alice'' True)) ''alice'' = Some 1 \<and>
   isTokenExpired demo_decode 1200
     (vt_redis (verifyToken demo_decode demo_api 1000 redis_empty ''alice'' True)) ''alice'' = False \<and>
   vt_result (verifyToken demo_decode demo_api 1200
     (vt_redis (verifyToken demo_decode demo_api 1000 redis_empty ''alice'' True)) ''alice'' True)
     = Inr (Some (minimal_user 1))"
  by (simp add: isTokenExpired_def auth_defs demo_defs redis_defs)

text \<open>
  Claim C2. Whenever full verify sends its request to the identity service and the
  service answers with status 401 or 403, the result is \<^verbatim>\<open>null\<close> and nothing is
  cached, whatever the local check found. An answered request carries an axios code
  such as \<^verbatim>\<open>ERR_BAD_REQUEST\<close>, never one of the four network codes, which the source
  tests before the status.
\<close>

theorem verifyToken_rejects_401_403:
  assumes "vt_requests (verifyToken decode api now r token useCache) = 1"
    and "api token = AxiosError code (Some status)"
    and "status = 401 \<or> status = 403"
    and "\<not> network_class code"
  shows "vt_result (verifyToken decode api now r token useCache) = Inr None
       \<and> vt_redis (verifyToken decode api now r token useCache) = r"
  using assms
  by (auto simp: verifyToken_def verify_failed_def split: if_splits option.splits)

theorem verifyToken_rejects_401_403_witness:
  "vt_requests (verifyToken demo_decode demo_api 1000 redis_empty ''mallory'' True) = 1
   \<and> demo_api ''mallory'' = AxiosError (Some ''ERR_BAD_REQUEST'') (Some 401)
   \<and> \<not> network_class (Some ''ERR_BAD_REQUEST'')
   \<and> parseTokenLocally demo_decode 1000 ''mallory'' = Some 4
   \<and> vt_result (verifyToken demo_decode demo_api 1000 redis_empty ''mallory'' True) = Inr None"
proof -
  have a: "vt_requests (verifyToken demo_decode demo_api 1000 redis_empty ''mallory'' True) = 1"
    by (simp add: auth_defs demo_defs redis_defs)
  have b: "demo_api ''mallory'' = AxiosError (Some ''ERR_BAD_REQUEST'') (Some 401)"
    by (simp add: demo_defs)
  have c: "\<not> network_class (Some ''ERR_BAD_REQUEST'')"
    by (simp add: network_class_def network_codes_def)
  have d: "parseTokenLocally demo_decode 1000 ''mallory'' = Some 4"
    by (simp add: auth_defs demo_defs)
  from verifyToken_rejects_401_403
         [of demo_decode demo_api 1000 redis_empty "''mallory''" True "Some ''ERR_BAD_REQUEST''" 401]
       a b c d
  show ?thesis by simp
qed



lemma verifyTokenFast_cache_miss:
  "redis_get_token r now token = None \<Longrightarrow>
   verifyTokenFast decode now r token =
     (if token = [] then None else parseTokenLocally decode now token)"
  by (simp add: verifyTokenFast_def)

text \<open>
  Claim C4, as stated, fails at two tokens. The token \<open>''zero''\<close> carries the
  subject id 0 and an \<^verbatim>\<open>exp\<close> in the future, and the check returns absent, not 0;
  the token \<open>''epoch''\<close> carries \<^verbatim>\<open>exp\<close> = 0, which is in the past, and the check
  returns its subject id.
\<close>

theorem parseTokenLocally_falsy_counterexample:
  "demo_decode ''zero'' = Decoded \<lparr>payload_id = Some 0, payload_exp = Some 5000\<rparr>
   \<and> (1000::int) < 5000
   \<and> parseTokenLocally demo_decode 1000 ''zero'' \<noteq> Some 0
   \<and> demo_decode ''epoch'' = Decoded \<lparr>payload_id = Some 3, payload_exp = Some 0\<rparr>
   \<and> (0::int) < 1000
   \<and> parseTokenLocally demo_decode 1000 ''epoch'' \<noteq> None"
  by (simp add: auth_defs demo_defs)

text \<open>
  Claim C4, amended. A token whose claims hold a non-zero subject id and an
  \<^verbatim>\<open>exp\<close> in the future yields that subject id; a token whose \<^verbatim>\<open>exp\<close> is
  non-zero and in the past, or whose subject id is missing or 0, yields absent; so
  does a token the decoder returns \<^verbatim>\<open>null\<close> for or raises on. The function is total:
  no input makes it raise.
\<close>

theorem parseTokenLocally_amended:
  "(decode token = Decoded p \<and> payload_id p = Some uid \<and> uid \<noteq> 0
      \<and> payload_exp p = Some e \<and> now < e
      \<longrightarrow> parseTokenLocally decode now token = Some uid)
   \<and> (decode token = Decoded p \<and> payload_exp p = Some e \<and> e \<noteq> 0 \<and> e < now
      \<longrightarrow> parseTokenLocally decode now token = None)
   \<and> (decode token = Decoded p \<and> (payload_id p = None \<or> payload_id p = Some 0)
      \<longrightarrow> parseTokenLocally decode now token = None)
   \<and> (decode token = DecodeNull \<or> decode token = DecodeThrows
      \<longrightarrow> parseTokenLocally decode now token = None)"
  by (auto simp: parseTokenLocally_def split: option.splits)

theorem parseTokenLocally_amended_witness:
  "parseTokenLocally demo_decode 1000 ''alice'' = Some 1
   \<and> parseTokenLocally demo_decode 1200 ''alice'' = None
   \<and> parseTokenLocally demo_decode 1000 ''zero'' = None
   \<and> parseTokenLocally demo_decode 1000 ''bad'' = None
   \<and> parseTokenLocally demo_decode 1000 ''garbage'' = None"
proof -
  have a: "demo_decode ''alice'' = Decoded \<lparr>payload_id = Some 1, payload_exp = Some 1100\<rparr>"
    and z: "demo_decode ''zero'' = Decoded \<lparr>payload_id = Some 0, payload_exp = Some 5000\<rparr>"
    and b: "demo_decode ''bad'' = DecodeThrows"
    and n: "demo_decode ''garbage'' = DecodeNull"
    by (simp_all add: demo_defs)
  from parseTokenLocally_amended
         [of demo_decode "''alice''" "\<lparr>payload_id = Some 1, payload_exp = Some 1100\<rparr>" 1 1100 1000]
       parseTokenLocally_amended
         [of demo_decode "''alice''" "\<lparr>payload_id = Some 1, payload_exp = Some 1100\<rparr>" 1 1100 1200]
       parseTokenLocally_amended
         [of demo_decode "''zero''" "\<lparr>payload_id = Some 0, payload_exp = Some 5000\<rparr>" 0 5000 1000]
       parseTokenLocally_amended [of demo_decode "''bad''" _ _ _ 1000]
       parseTokenLocally_amended [of demo_decode "''garbage''" _ _ _ 1000]
       a z b n
  show ?thesis by simp
qed


section \<open>Properties of the Message Store Facade\<close>

lemma find_append_last:
  "find P (xs @ ys) = (case find P xs of None \<Rightarrow> find P ys | Some x \<Rightarrow> Some x)"
  by (induction xs) simp_all

lemma createChat_total:
  "int4 a \<Longrightarrow> int4 b \<Longrightarrow> \<exists>c st'. createChat st t a b = Some (c, st')"
  by (simp add: createChat_def Let_def split: option.splits)

lemma createChat_same_order:
  assumes "createChat st t1 a b = Some (c1, st1)"
  shows "createChat st1 t2 a b = Some (c1, st1)"
  using assms
  by (auto simp: createChat_def Let_def find_append_last split: option.splits if_splits)

lemma createChat_swapped_inserts:
  assumes "createChat st t1 a b = Some (c1, st1)"
    and "a \<noteq> b" and "find (\<lambda>c. buyer_id c = b \<and> seller_id c = a) (chats st) = None"
  shows "createChat st1 t2 b a =
           Some (\<lparr>chat_id = next_uuid st1, buyer_id = b, seller_id = a, chat_created_at = t2\<rparr>,
                 st1\<lparr>chats := chats st1 @
                        [\<lparr>chat_id = next_uuid st1, buyer_id = b, seller_id = a,
                          chat_created_at = t2\<rparr>],
                      next_uuid := Suc (next_uuid st1)\<rparr>)"
  using assms
  by (auto simp: createChat_def Let_def find_append_last split: option.splits if_splits)

text \<open>
  Claim C7, as stated, fails. Creating a chat for (buyer 1, seller 2) and then for
  (buyer 2, seller 1) yields two chats: the second call inserts a row with another
  id, because the conflict target is the ordered pair \<^verbatim>\<open>(buyer_id, seller_id)\<close>,
  although \<^verbatim>\<open>getChatByUsers\<close> finds the first chat for the swapped pair.
\<close>

theorem createChat_swapped_pair_counterexample:
  "(case createChat store_empty 10 1 2 of
      None \<Rightarrow> False
    | Some (c1, st1) \<Rightarrow>
        (case createChat st1 20 2 1 of
           None \<Rightarrow> False
         | Some (c2, st2) \<Rightarrow>
             getChatByUsers st1 2 1 = Some c1 \<and> chat_id c2 \<noteq> chat_id c1
             \<and> chats st1 = [c1] \<and> chats st2 = [c1, c2]))"
  by (simp add: createChat_def store_empty_def getChatByUsers_def int4_def Let_def)

text \<open>
  Claim C7, amended. Chat creation is idempotent keyed by the ordered pair: for user
  ids a and b that the store's \<^verbatim>\<open>INTEGER\<close> columns can hold, creating a chat for
  (buyer a, seller b) succeeds, and creating it a second time returns the chat of
  the first call and leaves the store as it was. A chat for the swapped pair is
  another chat: when a and b differ and the store holds no chat of buyer b and
  seller a, creating (a, b) and then (b, a) appends a new row for (b, a).
\<close>

theorem createChat_idempotent_on_ordered_pair:
  "int4 a \<and> int4 b \<longrightarrow>
     (\<exists>c1 st1.
        createChat st t1 a b = Some (c1, st1)
        \<and> createChat st1 t2 a b = Some (c1, st1)
        \<and> (a \<noteq> b \<and> find (\<lambda>c. buyer_id c = b \<and> seller_id c = a) (chats st) = None
           \<longrightarrow> createChat st1 t2 b a =
                 Some (\<lparr>chat_id = next_uuid st1, buyer_id = b, seller_id = a,
                         chat_created_at = t2\<rparr>,
                       st1\<lparr>chats := chats st1 @
                              [\<lparr>chat_id = next_uuid st1, buyer_id = b, seller_id = a,
                                chat_created_at = t2\<rparr>],
                            next_uuid := Suc (next_uuid st1)\<rparr>)))"
proof
  assume "int4 a \<and> int4 b"
  then obtain c1 st1 where first: "createChat st t1 a b = Some (c1, st1)"
    using createChat_total [of a b st t1] by blast
  have again: "createChat st1 t2 a b = Some (c1, st1)"
    using first by (rule createChat_same_order)
  show "\<exists>c1 st1.
        createChat st t1 a b = Some (c1, st1)
        \<and> createChat st1 t2 a b = Some (c1, st1)
        \<and> (a \<noteq> b \<and> find (\<lambda>c. buyer_id c = b \<and> seller_id c = a) (chats st) = None
           \<longrightarrow> createChat st1 t2 b a =
                 Some (\<lparr>chat_id = next_uuid st1, buyer_id = b, seller_id = a,
                         chat_created_at = t2\<rparr>,
                       st1\<lparr>chats := chats st1 @
                              [\<lparr>chat_id = next_uuid st1, buyer_id = b, seller_id = a,
                                chat_created_at = t2\<rparr>],
                            next_uuid := Suc (next_uuid st1)\<rparr>))"
    using first again createChat_swapped_inserts [OF first] by blast
qed

theorem createChat_idempotent_on_ordered_pair_witness:
  "int4 1 \<and> int4 2 \<and> (1::int) \<noteq> 2
   \<and> find (\<lambda>c. buyer_id c = 2 \<and> seller_id c = 1) (chats store_empty) = None
   \<and> (\<exists>c1 st1.
        createChat store_empty 10 1 2 = Some (c1, st1)
        \<and> c1 = \<lparr>chat_id = 0, buyer_id = 1, seller_id = 2, chat_created_at = 10\<rparr>
        \<and> createChat st1 20 1 2 = Some (c1, st1)
        \<and> (\<exists>st2. createChat st1 20 2 1 =
                   Some (\<lparr>chat_id = 1, buyer_id = 2, seller_id = 1, chat_created_at = 20\<rparr>, st2)
                 \<and> chats st2 = [c1, \<lparr>chat_id = 1, buyer_id = 2, seller_id = 1,
                                       chat_created_at = 20\<rparr>]))"
proof -
  have h: "int4 1 \<and> int4 2" "(1::int) \<noteq> 2"
      "find (\<lambda>c. buyer_id c = 2 \<and> seller_id c = 1) (chats store_empty) = None"
    by (simp_all add: store_empty_def int4_def)
  have f: "createChat store_empty 10 1 2 =
             Some (\<lparr>chat_id = 0, buyer_id = 1, seller_id = 2, chat_created_at = 10\<rparr>,
                   \<lparr>chats = [\<lparr>chat_id = 0, buyer_id = 1, seller_id = 2, chat_created_at = 10\<rparr>],
                    messages = [], read_messages = [], next_uuid = Suc 0\<rparr>)"
    by (simp add: createChat_def store_empty_def int4_def Let_def)
  from createChat_idempotent_on_ordered_pair [of 1 2 store_empty 10 20] h f
  show ?thesis by simp
qed

lemma messages_insert_read [simp]: "messages (insert_read now u mid st) = messages st"
  by (simp add: insert_read_def)

lemma is_read_insert_read_same [simp]: "is_read (insert_read now u mid st) mid u"
  by (auto simp: insert_read_def is_read_def)

lemma is_read_insert_read_mono: "is_read st m v \<Longrightarrow> is_read (insert_read now u mid st) m v"
  by (auto simp: insert_read_def is_read_def)

lemma messages_fold_insert_read [simp]:
  "messages (fold (insert_read now u) ids st) = messages st"
  by (induction ids arbitrary: st) simp_all

lemma is_read_fold_mono:
  "is_read st m v \<Longrightarrow> is_read (fold (insert_read now u) ids st) m v"
  by (induction ids arbitrary: st) (simp_all add: is_read_insert_read_mono)

lemma is_read_fold_member:
  "mid \<in> set ids \<Longrightarrow> is_read (fold (insert_read now u) ids st) mid u"
  by (induction ids arbitrary: st) (auto simp: is_read_fold_mono)

lemma fold_insert_read_noop:
  "(\<And>mid. mid \<in> set ids \<Longrightarrow> is_read st mid u) \<Longrightarrow> fold (insert_read now u) ids st = st"
  by (induction ids arbitrary: st) (simp_all add: insert_read_def)

lemma unread_after_mark:
  "getUnreadCountForChat (markChatMessagesAsRead st now chatId userId) chatId userId = 0"
  by (auto simp: getUnreadCountForChat_def markChatMessagesAsRead_def filter_empty_conv
      intro!: is_read_fold_member)

lemma mark_twice:
  "markChatMessagesAsRead (markChatMessagesAsRead st t1 chatId userId) t2 chatId userId
     = markChatMessagesAsRead st t1 chatId userId"
  unfolding markChatMessagesAsRead_def
  by (rule fold_insert_read_noop) (auto intro!: is_read_fold_member)

text \<open>
  Claim C9. Marking all messages of a chat read for a user is idempotent. The
  operation is total (the insert selects its message ids from the messages table and
  skips existing receipts, so no constraint can fail); after the first invocation the
  user's unread count for the chat is 0; the second invocation, at any later time,
  leaves the store as the first one left it, so the count is 0 again.
\<close>

theorem markChatMessagesAsRead_idempotent:
  "getUnreadCountForChat (markChatMessagesAsRead st t1 chatId userId) chatId userId = 0
   \<and> markChatMessagesAsRead (markChatMessagesAsRead st t1 chatId userId) t2 chatId userId
       = markChatMessagesAsRead st t1 chatId userId
   \<and> getUnreadCountForChat
       (markChatMessagesAsRead (markChatMessagesAsRead st t1 chatId userId) t2 chatId userId)
       chatId userId = 0"
  by (simp add: unread_after_mark mark_twice)

section \<open>Properties of the Chat Relay\<close>

text \<open>The definitions a run of the handlers on a given state unfolds.\<close>

lemmas run_defs = fresh_socket_def gateway_empty_def set_add_def room_members_def
  emit_to_def client_emit_def server_emit_def server_to_def join_def socket_opened_def
  socket_closed_def refuse_def handleConnection_def session_user_def
  token_expired_def authorize_def other_participant_def handleMessage_def
  js_space_def trim_def blank_def
  store_empty_def getChatById_def createMessage_def stored_product_def int4_def
  getUserChats_def getUnreadCountForChat_def is_read_def
  auth_defs demo_defs redis_defs Let_def

subsection \<open>What emitting and joining leave alone\<close>

lemma emit_to_frame [simp]:
  "userSockets (emit_to rs ev g) = userSockets g"
  "sockets (emit_to rs ev g) = sockets g"
  "conns (emit_to rs ev g) = conns g"
  "cache (emit_to rs ev g) = cache g"
  "db (emit_to rs ev g) = db g"
  "emails (emit_to rs ev g) = emails g"
  "emitted (emit_to rs ev g) = emitted g @ [(rs, ev)]"
  by (simp_all add: emit_to_def)

lemma emitters_frame [simp]:
  "userSockets (client_emit cid ev g) = userSockets g"
  "sockets (client_emit cid ev g) = sockets g"
  "conns (client_emit cid ev g) = conns g"
  "cache (client_emit cid ev g) = cache g"
  "db (client_emit cid ev g) = db g"
  "emails (client_emit cid ev g) = emails g"
  "userSockets (server_emit ev g) = userSockets g"
  "sockets (server_emit ev g) = sockets g"
  "conns (server_emit ev g) = conns g"
  "cache (server_emit ev g) = cache g"
  "db (server_emit ev g) = db g"
  "emails (server_emit ev g) = emails g"
  "userSockets (server_to r ev g) = userSockets g"
  "sockets (server_to r ev g) = sockets g"
  "conns (server_to r ev g) = conns g"
  "cache (server_to r ev g) = cache g"
  "db (server_to r ev g) = db g"
  "emails (server_to r ev g) = emails g"
  by (simp_all add: client_emit_def server_emit_def server_to_def)

lemma join_frame [simp]:
  "userSockets (join sid r g) = userSockets g"
  "conns (join sid r g) = conns g"
  "cache (join sid r g) = cache g"
  "db (join sid r g) = db g"
  "emails (join sid r g) = emails g"
  "emitted (join sid r g) = emitted g"
  by (simp_all add: join_def)

lemma join_other_socket [simp]: "sid \<noteq> cid \<Longrightarrow> sockets (join cid r g) sid = sockets g sid"
  by (simp add: join_def)

lemma join_session [simp]:
  "sock_userId (sockets (join cid r g) sid) = sock_userId (sockets g sid)"
  "sock_token (sockets (join cid r g) sid) = sock_token (sockets g sid)"
  by (simp_all add: join_def)

lemma fold_join_frame [simp]:
  "userSockets (fold (\<lambda>c. join cid (f c)) cs g) = userSockets g"
  "conns (fold (\<lambda>c. join cid (f c)) cs g) = conns g"
  "cache (fold (\<lambda>c. join cid (f c)) cs g) = cache g"
  "db (fold (\<lambda>c. join cid (f c)) cs g) = db g"
  "emails (fold (\<lambda>c. join cid (f c)) cs g) = emails g"
  "emitted (fold (\<lambda>c. join cid (f c)) cs g) = emitted g"
  "sock_userId (sockets (fold (\<lambda>c. join cid (f c)) cs g) sid) = sock_userId (sockets g sid)"
  "sock_token (sockets (fold (\<lambda>c. join cid (f c)) cs g) sid) = sock_token (sockets g sid)"
  by (induction cs arbitrary: g) simp_all

lemma fold_join_other_socket [simp]:
  "sid \<noteq> cid \<Longrightarrow> sockets (fold (\<lambda>c. join cid (f c)) cs g) sid = sockets g sid"
  by (induction cs arbitrary: g) simp_all

lemma fold_server_to_frame [simp]:
  "userSockets (fold (\<lambda>s. server_to (f s) ev) ss g) = userSockets g"
  "sockets (fold (\<lambda>s. server_to (f s) ev) ss g) = sockets g"
  "conns (fold (\<lambda>s. server_to (f s) ev) ss g) = conns g"
  "cache (fold (\<lambda>s. server_to (f s) ev) ss g) = cache g"
  "db (fold (\<lambda>s. server_to (f s) ev) ss g) = db g"
  "emails (fold (\<lambda>s. server_to (f s) ev) ss g) = emails g"
  by (induction ss arbitrary: g) simp_all

lemma authorize_refused_frame:
  assumes "authorize decode now g cid = Inl (r, g')"
  shows "userSockets g' = userSockets g" "sockets g' = sockets g" "conns g' = conns g"
    "cache g' = cache g" "db g' = db g" "emails g' = emails g"
  using assms
  by (auto simp: authorize_def token_expired_def
      split: option.splits prod.splits if_splits)

subsection \<open>Presence\<close>

lemma isUserOnline_setUserOnline [simp]:
  "isUserOnline (setUserOnline r now u sid) t v =
     (if v = u then t < now + 300 else isUserOnline r t v)"
  by (simp add: isUserOnline_def setUserOnline_def live_at_def)

lemma isUserOnline_removeUserOnline [simp]:
  "isUserOnline (removeUserOnline r u) t v = (v \<noteq> u \<and> isUserOnline r t v)"
  by (auto simp: isUserOnline_def removeUserOnline_def live_at_def)

lemma handleConnection_accepts:
  assumes "token \<noteq> []"
    and "vt_result (verifyToken decode api now (cache g) token True) = Inr (Some userInfo)"
  shows "cache (handleConnection decode api now g cid (Some token)) =
           setUserOnline (vt_redis (verifyToken decode api now (cache g) token True)) now
             (ui_id userInfo) cid"
    and "userSockets (handleConnection decode api now g cid (Some token)) =
           (userSockets g)(ui_id userInfo \<mapsto>
              set_add cid (case userSockets g (ui_id userInfo) of None \<Rightarrow> [] | Some s \<Rightarrow> s))"
    and "sock_userId (sockets (handleConnection decode api now g cid (Some token)) cid)
           = Some (ui_id userInfo)"
    and "sid \<noteq> cid \<Longrightarrow>
           sockets (handleConnection decode api now g cid (Some token)) sid = sockets g sid"
  using assms
  by (simp_all add: handleConnection_def socket_opened_def Let_def)

lemma handleDisconnect_registered:
  assumes "sock_userId (sockets g cid) = Some u" and "u \<noteq> 0"
    and "userSockets g u = Some socks"
  shows "cache (handleDisconnect g cid) =
           (if removeAll cid socks = [] then removeUserOnline (cache g) u else cache g)"
    and "userSockets (handleDisconnect g cid) =
           (if removeAll cid socks = [] then (userSockets g)(u := None)
            else (userSockets g)(u \<mapsto> removeAll cid socks))"
    and "sid \<noteq> cid \<Longrightarrow> sockets (handleDisconnect g cid) sid = sockets g sid"
  using assms
  by (simp_all add: handleDisconnect_def socket_closed_def Let_def)

text \<open>
  For a session whose user has a registry entry: a successful connect sets the
  presence key of the user, live for 300 seconds, and no other user's key changes;
  a disconnect leaves the user online exactly if they were online and another socket
  remains in the entry, and no other user's key changes.
\<close>

lemma presence_of_registered_session:
  "(token \<noteq> [] \<and> vt_result (verifyToken decode api now (cache g) token True) = Inr (Some userInfo)
      \<longrightarrow> isUserOnline (cache (handleConnection decode api now g cid (Some token))) t v
            = (if v = ui_id userInfo then t < now + 300
               else isUserOnline (vt_redis (verifyToken decode api now (cache g) token True)) t v))
   \<and> (sock_userId (sockets g cid) = Some u \<and> u \<noteq> 0 \<and> userSockets g u = Some socks
      \<longrightarrow> isUserOnline (cache (handleDisconnect g cid)) t v
            = (isUserOnline (cache g) t v \<and> (v = u \<longrightarrow> removeAll cid socks \<noteq> [])))"
  by (auto simp: handleConnection_accepts(1) handleDisconnect_registered(1))

lemma two_sessions_presence:
  assumes "tok1 \<noteq> []" and "tok2 \<noteq> []" and "c1 \<noteq> c2" and "u \<noteq> 0"
    and "userSockets g u = None"
    and "vt_result (verifyToken decode api t1 (cache g) tok1 True) = Inr (Some ui1)"
    and "ui_id ui1 = u"
    and "g1 = handleConnection decode api t1 g c1 (Some tok1)"
    and "vt_result (verifyToken decode api t2 (cache g1) tok2 True) = Inr (Some ui2)"
    and "ui_id ui2 = u"
    and "g2 = handleConnection decode api t2 g1 c2 (Some tok2)"
  shows "isUserOnline (cache (handleDisconnect g2 c1)) t u = (t < t2 + 300)"
    and "userSockets (handleDisconnect g2 c1) u = Some [c2]"
    and "\<not> isUserOnline (cache (handleDisconnect (handleDisconnect g2 c1) c2)) t u"
    and "userSockets (handleDisconnect (handleDisconnect g2 c1) c2) u = None"
proof -
  have r1: "userSockets g1 u = Some [c1]" and s1: "sock_userId (sockets g1 c1) = Some u"
    using assms by (simp_all add: handleConnection_accepts set_add_def)
  have r2: "userSockets g2 u = Some [c1, c2]"
    and s21: "sock_userId (sockets g2 c1) = Some u"
    and s22: "sock_userId (sockets g2 c2) = Some u"
    and on2: "isUserOnline (cache g2) t u = (t < t2 + 300)"
    using assms r1 s1 by (simp_all add: handleConnection_accepts set_add_def)
  let ?g3 = "handleDisconnect g2 c1"
  have rem: "removeAll c1 [c1, c2] = [c2]"
    using \<open>c1 \<noteq> c2\<close> by simp
  show on3: "isUserOnline (cache ?g3) t u = (t < t2 + 300)"
    using handleDisconnect_registered(1) [OF s21 \<open>u \<noteq> 0\<close> r2] on2 rem by simp
  show r3: "userSockets ?g3 u = Some [c2]"
    using handleDisconnect_registered(2) [OF s21 \<open>u \<noteq> 0\<close> r2] rem by simp
  have s3: "sock_userId (sockets ?g3 c2) = Some u"
    using handleDisconnect_registered(3) [OF s21 \<open>u \<noteq> 0\<close> r2, of c2] s22 \<open>c1 \<noteq> c2\<close> by simp
  show "\<not> isUserOnline (cache (handleDisconnect ?g3 c2)) t u"
    using handleDisconnect_registered(1) [OF s3 \<open>u \<noteq> 0\<close> r3] by simp
  show "userSockets (handleDisconnect ?g3 c2) u = None"
    using handleDisconnect_registered(2) [OF s3 \<open>u \<noteq> 0\<close> r3] by simp
qed

lemma two_sessions_example:
  "isUserOnline (cache demo_one) 1020 1
   \<and> userSockets demo_two 1 = Some [''s1'', ''s2'']
   \<and> isUserOnline (cache demo_two) 1020 1
   \<and> isUserOnline (cache (handleDisconnect demo_two ''s1'')) 1020 1
   \<and> userSockets (handleDisconnect demo_two ''s1'') 1 = Some [''s2'']
   \<and> \<not> isUserOnline (cache (handleDisconnect (handleDisconnect demo_two ''s1'') ''s2'')) 1020 1
   \<and> userSockets (handleDisconnect (handleDisconnect demo_two ''s1'') ''s2'') 1 = None"
  by code_simp

lemma demo_start_reachable: "reachable demo_decode demo_api demo_start"
proof -
  have start: "demo_start = gateway_empty\<lparr>cache := redis_empty, db := demo_store\<rparr>"
    by (simp add: demo_start_def gateway_empty_def)
  show ?thesis unfolding start by (rule reachable.started)
qed

text \<open>
  Claim C5. The presence key should be cleared exactly when the last local session of
  a user disconnects. The connect hook records a session in three places (the
  session's user id, the registry, the presence key), the refresh handler in two
  (it leaves the registry alone), and the disconnect hook looks the registry up by the
  session's user id. So, in states the relay reaches:

  \<^item> user 1 connects on socket \<open>''s1''\<close> and refreshes with the token of user 2;
    when the socket disconnects no socket is left, the registry still lists
    \<open>''s1''\<close> under user 1, nothing is emitted, and the presence keys of users 1 and
    2 are both still set;
  \<^item> user 1 connects on \<open>''s1''\<close> and \<open>''s2''\<close>, \<open>''s1''\<close> refreshes with the token
    of user 2, and both sockets disconnect: no socket is left and user 1 is still
    online;
  \<^item> without the refresh, the disconnect of \<open>''s1''\<close> clears the key of user 1.
\<close>

theorem presence_survives_last_disconnect_after_refresh:
  "reachable demo_decode demo_api (handleDisconnect demo_refreshed ''s1'')
   \<and> conns demo_refreshed = [''s1'']
   \<and> sock_userId (sockets demo_refreshed ''s1'') = Some 2
   \<and> userSockets demo_refreshed 1 = Some [''s1'']
   \<and> userSockets demo_refreshed 2 = None
   \<and> conns (handleDisconnect demo_refreshed ''s1'') = []
   \<and> userSockets (handleDisconnect demo_refreshed ''s1'') 1 = Some [''s1'']
   \<and> emitted (handleDisconnect demo_refreshed ''s1'') = emitted demo_refreshed
   \<and> isUserOnline (cache (handleDisconnect demo_refreshed ''s1'')) 1030 1
   \<and> isUserOnline (cache (handleDisconnect demo_refreshed ''s1'')) 1030 2
   \<and> reachable demo_decode demo_api demo_two_refreshed
   \<and> conns demo_two_refreshed = []
   \<and> userSockets demo_two_refreshed 1 = Some [''s1'']
   \<and> isUserOnline (cache demo_two_refreshed) 1030 1
   \<and> conns (handleDisconnect demo_one ''s1'') = []
   \<and> \<not> isUserOnline (cache (handleDisconnect demo_one ''s1'')) 1030 1"
proof -
  have one: "reachable demo_decode demo_api demo_one"
    unfolding demo_one_def by (rule reachable.connected [OF demo_start_reachable])
  have r1: "reachable demo_decode demo_api (handleDisconnect demo_refreshed ''s1'')"
    unfolding demo_refreshed_def
    by (rule reachable.disconnected [OF reachable.refreshed [OF one]])
  have two: "reachable demo_decode demo_api demo_two"
    unfolding demo_two_def by (rule reachable.connected [OF one])
  have r2: "reachable demo_decode demo_api demo_two_refreshed"
    unfolding demo_two_refreshed_def
    by (rule reachable.disconnected
          [OF reachable.disconnected [OF reachable.refreshed [OF two]]])
  have run: "conns demo_refreshed = [''s1'']
   \<and> sock_userId (sockets demo_refreshed ''s1'') = Some 2
   \<and> userSockets demo_refreshed 1 = Some [''s1'']
   \<and> userSockets demo_refreshed 2 = None
   \<and> conns (handleDisconnect demo_refreshed ''s1'') = []
   \<and> userSockets (handleDisconnect demo_refreshed ''s1'') 1 = Some [''s1'']
   \<and> emitted (handleDisconnect demo_refreshed ''s1'') = emitted demo_refreshed
   \<and> isUserOnline (cache (handleDisconnect demo_refreshed ''s1'')) 1030 1
   \<and> isUserOnline (cache (handleDisconnect demo_refreshed ''s1'')) 1030 2
   \<and> conns demo_two_refreshed = []
   \<and> userSockets demo_two_refreshed 1 = Some [''s1'']
   \<and> isUserOnline (cache demo_two_refreshed) 1030 1
   \<and> conns (handleDisconnect demo_one ''s1'') = []
   \<and> \<not> isUserOnline (cache (handleDisconnect demo_one ''s1'')) 1030 1"
    by code_simp
  from r1 r2 run show ?thesis by simp
qed

subsection \<open>Offline notification\<close>

lemma trim_Nil [simp]: "trim [] = []"
  by (simp add: trim_def)

lemma handleMessage_refused:
  assumes "fst (handleMessage decode now g cid chatId text productId) = ErrorReply e code"
  shows "emails (snd (handleMessage decode now g cid chatId text productId)) = emails g
       \<and> db (snd (handleMessage decode now g cid chatId text productId)) = db g"
proof (cases "authorize decode now g cid")
  case (Inl refused)
  then show ?thesis
    using authorize_refused_frame(5,6) [of decode now g cid "fst refused" "snd refused"]
    by (simp add: handleMessage_def)
next
  case (Inr uid)
  show ?thesis
  proof (cases "getChatById (db g) chatId")
    case None
    with Inr show ?thesis by (simp add: handleMessage_def)
  next
    case (Some c)
    show ?thesis
    proof (cases "buyer_id c \<noteq> uid \<and> seller_id c \<noteq> uid")
      case True
      with Inr Some show ?thesis by (simp add: handleMessage_def)
    next
      case False
      show ?thesis
      proof (cases "createMessage (db g) now chatId uid text productId")
        case None
        with Inr Some False show ?thesis by (simp add: handleMessage_def Let_def)
      next
        case (Some sent)
        obtain msg db' where "sent = (msg, db')" by (cases sent)
        with Inr \<open>getChatById (db g) chatId = Some c\<close> False Some
        have "fst (handleMessage decode now g cid chatId text productId) = SentReply msg"
          by (simp add: handleMessage_def Let_def)
        with assms show ?thesis by simp
      qed
    qed
  qed
qed

text \<open>When the insert goes through: the text is defined and free of the code unit 0,
  and the sender id and the stored product id fit an \<^verbatim>\<open>INTEGER\<close>.\<close>

lemma handleMessage_accepted:
  assumes "authorize decode now g cid = Inr uid"
    and "getChatById (db g) chatId = Some c"
    and "buyer_id c = uid \<or> seller_id c = uid"
    and "0 \<notin> set t" and "int4 uid"
    and "case stored_product productId of None \<Rightarrow> True | Some p \<Rightarrow> int4 p"
  shows "\<exists>msg. fst (handleMessage decode now g cid chatId (Some t) productId) = SentReply msg
               \<and> content msg = t"
  using assms
  by (auto simp: handleMessage_def createMessage_def Let_def split: option.splits)



text \<open>A product id that no \<^verbatim>\<open>INTEGER\<close> holds, or a text with the code unit 0: the
  insert raises, the reply is the failure, and nothing is dispatched although the
  recipient is offline and the text is not blank.\<close>

lemma handleMessage_insert_fails_example:
  "fst (handleMessage demo_decode 1020 demo_one ''s1'' 0 (Some [0x68, 0x69]) (Some 2147483648))
     = ErrorReply ''Failed to send message'' None
   \<and> emails (snd (handleMessage demo_decode 1020 demo_one ''s1'' 0 (Some [0x68, 0x69])
                    (Some 2147483648))) = []
   \<and> fst (handleMessage demo_decode 1020 demo_one ''s1'' 0 (Some [0x68, 0]) None)
     = ErrorReply ''Failed to send message'' None
   \<and> emails (snd (handleMessage demo_decode 1020 demo_one ''s1'' 0 (Some [0x68, 0]) None)) = []"
  by (simp add: run_defs demo_one_def demo_start_def demo_store_def)

subsection \<open>Read receipts\<close>

lemma in_user_room_join_chat [simp]:
  "in_user_room (join cid (ChatRoom c) g) sid = in_user_room g sid"
  by (auto simp: in_user_room_def join_def set_add_def user_room_def)

lemma in_user_room_fold_join_chat [simp]:
  "in_user_room (fold (\<lambda>c. join cid (ChatRoom (f c))) cs g) sid = in_user_room g sid"
  by (induction cs arbitrary: g) simp_all

lemma in_user_room_fields [simp]:
  "in_user_room (g\<lparr>cache := r\<rparr>) sid = in_user_room g sid"
  "in_user_room (g\<lparr>db := st\<rparr>) sid = in_user_room g sid"
  "in_user_room (g\<lparr>userSockets := reg\<rparr>) sid = in_user_room g sid"
  "in_user_room (g\<lparr>conns := cs\<rparr>) sid = in_user_room g sid"
  "in_user_room (g\<lparr>emails := es\<rparr>) sid = in_user_room g sid"
  "in_user_room (emit_to rs ev g) sid = in_user_room g sid"
  "in_user_room (client_emit cid ev g) sid = in_user_room g sid"
  "in_user_room (server_emit ev g) sid = in_user_room g sid"
  "in_user_room (server_to rm ev g) sid = in_user_room g sid"
  "in_user_room (fold (\<lambda>s. server_to (f s) ev) ss g) sid = in_user_room g sid"
  "in_user_room (g\<lparr>sockets := (sockets g)(cid := (sockets g cid)
      \<lparr>sock_userId := a, sock_token := b\<rparr>)\<rparr>) sid = in_user_room g sid"
  by (simp_all add: in_user_room_def)

lemma in_user_room_opened [simp]:
  "in_user_room (socket_opened cid g) sid = (sid \<noteq> cid \<and> in_user_room g sid)"
  by (auto simp: in_user_room_def socket_opened_def fresh_socket_def user_room_def)

lemma in_user_room_closed [simp]:
  "in_user_room (socket_closed cid g) sid = (sid \<noteq> cid \<and> in_user_room g sid)"
  by (auto simp: in_user_room_def socket_closed_def)

lemma in_user_room_refuse [simp]:
  "in_user_room (refuse cid err code g) sid = (sid \<noteq> cid \<and> in_user_room g sid)"
  by (simp add: refuse_def)

lemma in_user_room_empty [simp]: "\<not> in_user_room gateway_empty sid"
  by (simp add: in_user_room_def gateway_empty_def fresh_socket_def user_room_def)

lemma authorize_refused_rooms:
  "authorize decode now g cid = Inl (r, g') \<Longrightarrow> in_user_room g' sid = in_user_room g sid"
  by (auto simp: authorize_def token_expired_def split: option.splits prod.splits if_splits)

lemma handleConnection_rooms:
  "in_user_room (handleConnection decode api now g cid tok) sid \<Longrightarrow> in_user_room g sid"
  by (simp add: handleConnection_def Let_def split: option.splits sum.splits if_splits)

lemma handleDisconnect_rooms:
  "in_user_room (handleDisconnect g cid) sid \<Longrightarrow> in_user_room g sid"
  by (simp add: handleDisconnect_def Let_def split: option.splits if_splits)

lemma handleMessage_rooms:
  "in_user_room (snd (handleMessage decode now g cid chatId text productId)) sid
     = in_user_room g sid"
proof (cases "authorize decode now g cid")
  case (Inl refused)
  then show ?thesis
    using authorize_refused_rooms [of decode now g cid "fst refused" "snd refused" sid]
    by (simp add: handleMessage_def)
next
  case (Inr uid)
  then show ?thesis
    by (simp add: handleMessage_def Let_def split: option.splits prod.splits)
qed

lemma handleCreateChat_rooms:
  "in_user_room (snd (handleCreateChat decode now g cid buyerId sellerId)) sid
     = in_user_room g sid"
proof (cases "authorize decode now g cid")
  case (Inl refused)
  then show ?thesis
    using authorize_refused_rooms [of decode now g cid "fst refused" "snd refused" sid]
    by (simp add: handleCreateChat_def)
next
  case (Inr uid)
  then show ?thesis
    by (simp add: handleCreateChat_def Let_def split: option.splits prod.splits)
qed

lemma handleRefreshToken_rooms:
  "in_user_room (snd (handleRefreshToken decode api now g cid dataToken)) sid
     = in_user_room g sid"
  by (simp add: handleRefreshToken_def Let_def split: option.splits sum.splits)

lemma handleMarkMessagesAsRead_rooms:
  "in_user_room (snd (handleMarkMessagesAsRead decode now g cid chatId messageIds)) sid
     = in_user_room g sid"
proof (cases "authorize decode now g cid")
  case (Inl refused)
  then show ?thesis
    using authorize_refused_rooms [of decode now g cid "fst refused" "snd refused" sid]
    by (simp add: handleMarkMessagesAsRead_def)
next
  case (Inr uid)
  then show ?thesis
    by (simp add: handleMarkMessagesAsRead_def Let_def split: option.splits prod.splits)
qed

lemma reachable_no_user_room: "reachable decode api g \<Longrightarrow> \<not> in_user_room g sid"
proof (induction rule: reachable.induct)
  case (started r st)
  then show ?case by (simp add: in_user_room_def gateway_empty_def fresh_socket_def user_room_def)
next
  case (connected g now cid handshakeToken)
  then show ?case using handleConnection_rooms by blast
next
  case (disconnected g cid)
  then show ?case using handleDisconnect_rooms by blast
qed (simp_all add: handleMessage_rooms handleCreateChat_rooms handleRefreshToken_rooms
      handleMarkMessagesAsRead_rooms)

lemma reachable_user_room_empty:
  assumes "reachable decode api g"
  shows "room_members g (UserRoom u) = []"
proof -
  have "UserRoom u \<notin> set (sock_rooms (sockets g sid))" for sid
    using reachable_no_user_room [OF assms, of sid]
    by (auto simp: in_user_room_def user_room_def)
  then show ?thesis by (simp add: room_members_def)
qed

lemma handleMarkMessagesAsRead_emits:
  assumes "fst (handleMarkMessagesAsRead decode now g cid chatId messageIds) = UnreadReply n"
  shows "\<exists>uid c. authorize decode now g cid = Inr uid \<and> getChatById (db g) chatId = Some c
          \<and> emitted (snd (handleMarkMessagesAsRead decode now g cid chatId messageIds)) =
              emitted g @ [([cid], UnreadUpdated chatId n),
                           (room_members g (UserRoom (other_participant c uid)),
                            MessageRead chatId uid)]"
proof (cases "authorize decode now g cid")
  case (Inl refused)
  then show ?thesis
    using assms
    by (auto simp: handleMarkMessagesAsRead_def authorize_def token_expired_def
        split: option.splits prod.splits if_splits)
next
  case (Inr uid)
  then show ?thesis
    using assms
    by (auto simp: handleMarkMessagesAsRead_def Let_def client_emit_def server_to_def
        emit_to_def room_members_def split: option.splits prod.splits if_splits)
qed

lemma message_read_never_delivered:
  assumes "reachable decode api g"
    and "fst (handleMarkMessagesAsRead decode now g cid chatId messageIds) = UnreadReply n"
  shows "\<exists>uid. emitted (snd (handleMarkMessagesAsRead decode now g cid chatId messageIds)) =
           emitted g @ [([cid], UnreadUpdated chatId n), ([], MessageRead chatId uid)]"
  using handleMarkMessagesAsRead_emits [OF assms(2)] reachable_user_room_empty [OF assms(1)]
  by auto

text \<open>
  Claim C6. A successful mark-messages-read action should deliver
  \<^verbatim>\<open>message:read\<close> to the live sessions of the other participant. On the code it
  reaches no socket: users 1 and 2 are both connected (sockets \<open>''s1''\<close> and
  \<open>''sB''\<close>), user 1 has sent a message in their chat, user 2 marks the chat read
  and gets the unread count 0, and the event \<^verbatim>\<open>message:read\<close> for that chat and
  reader goes to the room \<^verbatim>\<open>user:1\<close>, which has no member, while user 1's socket
  is registered and connected.
\<close>

theorem message_read_reaches_nobody:
  "fst (handleMarkMessagesAsRead demo_decode 1030 demo_sent ''sB'' 0 None) = UnreadReply 0
   \<and> userSockets demo_sent 1 = Some [''s1'']
   \<and> conns demo_sent = [''s1'', ''sB'']
   \<and> room_members demo_sent (ChatRoom 0) = [''s1'', ''sB'']
   \<and> room_members demo_sent (UserRoom 1) = []
   \<and> drop (length (emitted demo_sent))
        (emitted (snd (handleMarkMessagesAsRead demo_decode 1030 demo_sent ''sB'' 0 None)))
       = [([''sB''], UnreadUpdated 0 0), ([], MessageRead 0 2)]
   \<and> delivered (snd (handleMarkMessagesAsRead demo_decode 1030 demo_sent ''sB'' 0 None))
        (MessageRead 0 2) = []"
  by (simp add: run_defs handleMarkMessagesAsRead_def markChatMessagesAsRead_def
      insert_read_def delivered_def demo_sent_def demo_both_def demo_one_def demo_start_def
      demo_store_def)

text \<open>The same through the \<^verbatim>\<open>message:mark-read\<close> handler, for a session that passes
  the two checks in a chat it takes part in: the reply is a success with count 0.\<close>

lemma handleMarkMessagesAsRead_chat_wide:
  assumes "authorize decode now g cid = Inr uid"
    and "getChatById (db g) chatId = Some c"
    and "buyer_id c = uid \<or> seller_id c = uid"
  shows "fst (handleMarkMessagesAsRead decode now g cid chatId None) = UnreadReply 0"
    and "db (snd (handleMarkMessagesAsRead decode now g cid chatId None))
           = markChatMessagesAsRead (db g) now chatId uid"
    and "cache (snd (handleMarkMessagesAsRead decode now g cid chatId None)) = cache g"
    and "sockets (snd (handleMarkMessagesAsRead decode now g cid chatId None)) = sockets g"
  using assms
  by (auto simp: handleMarkMessagesAsRead_def Let_def unread_after_mark)

subsection \<open>Token refresh\<close>

text \<open>
  Claim C10. The \<^verbatim>\<open>auth:refresh-token\<close> handler never changes the registry
  \<^verbatim>\<open>userSockets\<close>, whatever the token and whoever it resolves to. Nor does it
  change the connected sockets, the rooms of any socket, the store or the event log.
\<close>

theorem handleRefreshToken_registry_unchanged:
  "userSockets (snd (handleRefreshToken decode api now g cid dataToken)) = userSockets g
   \<and> conns (snd (handleRefreshToken decode api now g cid dataToken)) = conns g
   \<and> db (snd (handleRefreshToken decode api now g cid dataToken)) = db g
   \<and> emitted (snd (handleRefreshToken decode api now g cid dataToken)) = emitted g
   \<and> emails (snd (handleRefreshToken decode api now g cid dataToken)) = emails g
   \<and> sock_rooms (sockets (snd (handleRefreshToken decode api now g cid dataToken)) sid)
       = sock_rooms (sockets g sid)"
  by (simp add: handleRefreshToken_def Let_def split: option.splits sum.splits)

text \<open>What it does change, on success: the session's user id and token, and the cache
  (the token cache through full verify, and the presence key of the new user).\<close>

lemma handleRefreshToken_accepts:
  assumes "token \<noteq> []"
    and "vt_result (verifyToken decode api now (cache g) token True) = Inr (Some userInfo)"
  shows "fst (handleRefreshToken decode api now g cid (Some token)) = RefreshedReply (ui_id userInfo)"
    and "sock_userId (sockets (snd (handleRefreshToken decode api now g cid (Some token))) cid)
           = Some (ui_id userInfo)"
    and "sock_token (sockets (snd (handleRefreshToken decode api now g cid (Some token))) cid)
           = Some token"
    and "cache (snd (handleRefreshToken decode api now g cid (Some token))) =
           setUserOnline (vt_redis (verifyToken decode api now (cache g) token True)) now
             (ui_id userInfo) cid"
    and "sid \<noteq> cid \<Longrightarrow>
           sockets (snd (handleRefreshToken decode api now g cid (Some token))) sid = sockets g sid"
  using assms
  by (simp_all add: handleRefreshToken_def Let_def)

text \<open>
  An instance with a token of another user: the socket \<open>''s1''\<close> of user 1 refreshes
  with the token of user 2. The session then says user 2, the registry still lists
  \<open>''s1''\<close> under user 1 and has no entry for user 2; when the socket disconnects,
  the hook finds no entry for user 2 and leaves the registry and both presence keys
  as they are.
\<close>

lemma refresh_to_other_user_example:
  "fst (handleRefreshToken demo_decode demo_api 1020 demo_one ''s1'' (Some ''bob''))
     = RefreshedReply 2
   \<and> sock_userId (sockets demo_refreshed ''s1'') = Some 2
   \<and> userSockets demo_refreshed 1 = Some [''s1'']
   \<and> userSockets demo_refreshed 2 = None
   \<and> userSockets (handleDisconnect demo_refreshed ''s1'') 1 = Some [''s1'']
   \<and> conns (handleDisconnect demo_refreshed ''s1'') = []
   \<and> isUserOnline (cache (handleDisconnect demo_refreshed ''s1'')) 1030 1
   \<and> isUserOnline (cache (handleDisconnect demo_refreshed ''s1'')) 1030 2"
  by code_simp


end
